theory Spec2Isabelle
  imports Complex_Main
begin

section \<open>Values: request bodies and SQL parameters\<close>

text \<open>
  A request body is a JSON object. Reading a key that is absent gives \<open>Undefined\<close>.
  Only scalar JSON values are modelled; a JSON number is the rational number its literal
  denotes (1.005 is 201/200), which is also what the query driver sends to PostgreSQL.
\<close>

datatype jsval = Undefined | JNull | JBool bool | JNum rat | JStr string

type_synonym body = "string \<Rightarrow> jsval"

text \<open>JavaScript truthiness, as used by \<open>!x\<close> and \<open>x || y\<close>.\<close>

fun truthy :: "jsval \<Rightarrow> bool" where
  "truthy Undefined = False"
| "truthy JNull = False"
| "truthy (JBool b) = b"
| "truthy (JNum n) = (n \<noteq> 0)"
| "truthy (JStr s) = (s \<noteq> [])"

definition js_or :: "jsval \<Rightarrow> jsval \<Rightarrow> jsval" where
  "js_or a b = (if truthy a then a else b)"

text \<open>
  A column value. The query driver sends \<open>undefined\<close> and \<open>null\<close> as SQL NULL and
  every other parameter as it is.
\<close>

datatype sqlval = SNull | SBool bool | SNum rat | SText string | STime int

fun to_sql :: "jsval \<Rightarrow> sqlval" where
  "to_sql Undefined = SNull"
| "to_sql JNull = SNull"
| "to_sql (JBool b) = SBool b"
| "to_sql (JNum n) = SNum n"
| "to_sql (JStr s) = SText s"

fun coalesce :: "sqlval \<Rightarrow> sqlval \<Rightarrow> sqlval" where
  "coalesce SNull old = old"
| "coalesce v old = v"

section \<open>The environment of a request\<close>

text \<open>
  What a handler cannot compute by itself: the identifier PostgreSQL draws for a new row
  (\<open>gen_random_uuid()\<close>), the value of \<open>uuidv4()\<close> in the handler, the clock
  (\<open>CURRENT_TIMESTAMP\<close>), and whether the input function of a column type accepts a
  parameter (\<open>pg_input\<close>). NUMERIC stands for the NUMERIC(10,2) of quantity and
  labor\_hours.
\<close>

datatype coltype = UUID | BIGINT | NUMERIC | VARCHAR | TEXT | TIMESTAMP

record env =
  gen_random_uuid :: string
  uuidv4 :: string
  current_timestamp :: int
  pg_input :: "coltype \<Rightarrow> sqlval \<Rightarrow> bool"

definition fits :: "env \<Rightarrow> coltype \<Rightarrow> sqlval \<Rightarrow> bool" where
  "fits e ty v = (v = SNull \<or> pg_input e ty v)"

text \<open>
  What a NUMERIC(10,2) column stores of a number it accepts: the number rounded to two
  decimals, ties away from zero (1.005 is stored as 1.01). A BIGINT column accepts whole
  numbers only and stores them as they are; a parameter that is not a number is kept as
  it was sent.
\<close>

definition numeric_10_2 :: "rat \<Rightarrow> rat" where
  "numeric_10_2 q =
     (if 0 \<le> q then of_int \<lfloor>q * 100 + 1 / 2\<rfloor> / 100
      else - (of_int \<lfloor>- q * 100 + 1 / 2\<rfloor> / 100))"

fun store_numeric :: "sqlval \<Rightarrow> sqlval" where
  "store_numeric (SNum q) = SNum (numeric_10_2 q)"
| "store_numeric v = v"

datatype db_error = InvalidInput | NotNullViolation | UniqueViolation | ForeignKeyViolation

text \<open>
  A response is a JSON body with its status, an error message with its status, or the
  status 500 that follows an error thrown by the gateway or by the database.
\<close>

datatype cause = GatewayFailure string | DbFailure db_error

datatype 'r response = Json nat 'r | Error nat string | ServerError cause

fun status_code :: "'r response \<Rightarrow> nat" where
  "status_code (Json c r) = c"
| "status_code (Error c m) = c"
| "status_code (ServerError x) = 500"

section \<open>Tables (schema.sql)\<close>

record order_row =
  o_id :: string
  o_company_id :: sqlval
  o_location_id :: sqlval
  o_customer_id :: sqlval
  o_status :: sqlval
  o_priority :: sqlval
  o_note :: sqlval
  o_service_writer_id :: sqlval
  calculated_labor_cents :: sqlval
  calculated_parts_cents :: sqlval
  calculated_subcontracts_cents :: sqlval
  calculated_shop_supplies_cents :: sqlval
  calculated_discount_cents :: sqlval
  calculated_tax_cents :: sqlval
  calculated_subtotal_cents :: sqlval
  calculated_total_cents :: sqlval
  o_discount_percent :: sqlval
  o_tax_percent :: sqlval
  o_deferred :: sqlval
  o_updated_at :: sqlval
  o_deleted :: sqlval

record line_item_row =
  li_id :: string
  li_company_id :: sqlval
  li_location_id :: sqlval
  li_order_id :: sqlval
  li_source_service_id :: sqlval
  li_name :: sqlval
  li_description :: sqlval
  li_category :: sqlval
  li_line_item_order :: sqlval
  li_pricing :: sqlval
  li_ordinal :: sqlval
  li_labor_rate_cents :: sqlval
  li_labor_hours :: sqlval
  li_parts_cost_cents :: sqlval
  li_quantity :: sqlval
  li_fixed_price_cents :: sqlval
  li_lump_sum :: sqlval
  li_discount_cents :: sqlval
  li_discount_percent :: sqlval
  li_discount_value_type :: sqlval
  li_tax_cents :: sqlval
  li_tax_percent :: sqlval
  li_tax_value_type :: sqlval
  li_total_cents :: sqlval
  li_status :: sqlval
  li_hidden :: sqlval
  li_recommended :: sqlval
  li_revived :: sqlval
  li_revived_from_id :: sqlval
  li_note :: sqlval
  li_metadata :: sqlval
  li_created_at :: sqlval
  li_updated_at :: sqlval

record transaction_row =
  t_id :: string
  t_company_id :: sqlval
  t_location_id :: sqlval
  t_order_id :: sqlval
  t_customer_id :: sqlval
  t_transaction_type :: sqlval
  t_status :: sqlval
  t_amount_cents :: sqlval
  t_payment_method :: sqlval
  t_payment_reference :: sqlval
  t_applied_date :: sqlval
  t_due_date :: sqlval
  t_note :: sqlval
  t_metadata :: sqlval
  t_created_at :: sqlval
  t_updated_at :: sqlval

record authorization_row =
  a_id :: string
  a_order_id :: sqlval
  a_customer_id :: sqlval
  authorized_cost_cents :: sqlval
  a_method :: sqlval
  a_date :: sqlval

text \<open>
  The database: the four tables of the ledger, in insertion order, and the identifiers
  of the customer table (all that foreign keys need of it).
\<close>

record db =
  customers :: "string list"
  orders :: "order_row list"
  order_line_items :: "line_item_row list"
  transactions :: "transaction_row list"
  authorizations :: "authorization_row list"

definition references :: "string list \<Rightarrow> sqlval \<Rightarrow> bool" where
  "references ids v = (case v of SNull \<Rightarrow> True | SText s \<Rightarrow> s \<in> set ids | _ \<Rightarrow> False)"

section \<open>Line items (server.js, ORDER\_LINE\_ITEM ENDPOINTS)\<close>

text \<open>The ten parameters that POST /api/order-line-items sends to the INSERT.\<close>

definition line_item_params :: "env \<Rightarrow> body \<Rightarrow> sqlval list" where
  "line_item_params e b =
     [to_sql (js_or (b ''company_id'') (JStr (uuidv4 e))),
      to_sql (b ''location_id''),
      to_sql (b ''order_id''),
      to_sql (b ''name''),
      to_sql (b ''category''),
      to_sql (js_or (b ''pricing'') (JStr ''fixed'')),
      to_sql (b ''quantity''),
      to_sql (js_or (b ''fixed_price_cents'') (JNum 0)),
      to_sql (b ''labor_hours''),
      to_sql (js_or (b ''note'') (JStr []))]"

text \<open>
  INSERT INTO order\_line\_item (company\_id, location\_id, order\_id, name, category,
  pricing, quantity, fixed\_price\_cents, labor\_hours, note): the ten columns the
  statement names come from the parameters, quantity and labor\_hours as their
  NUMERIC(10,2) columns store them; every other column takes its default of schema.sql.
\<close>

definition new_line_item :: "env \<Rightarrow> sqlval list \<Rightarrow> line_item_row" where
  "new_line_item e ps =
     \<lparr> li_id = gen_random_uuid e,
       li_company_id = ps ! 0,
       li_location_id = ps ! 1,
       li_order_id = ps ! 2,
       li_source_service_id = SNull,
       li_name = ps ! 3,
       li_description = SNull,
       li_category = ps ! 4,
       li_line_item_order = SNull,
       li_pricing = ps ! 5,
       li_ordinal = SNum 0,
       li_labor_rate_cents = SNull,
       li_labor_hours = store_numeric (ps ! 8),
       li_parts_cost_cents = SNull,
       li_quantity = store_numeric (ps ! 6),
       li_fixed_price_cents = ps ! 7,
       li_lump_sum = SBool False,
       li_discount_cents = SNum 0,
       li_discount_percent = SNum 0,
       li_discount_value_type = SNull,
       li_tax_cents = SNum 0,
       li_tax_percent = SNum 0,
       li_tax_value_type = SNull,
       li_total_cents = SNum 0,
       li_status = SText ''pending'',
       li_hidden = SBool False,
       li_recommended = SBool False,
       li_revived = SBool False,
       li_revived_from_id = SNull,
       li_note = ps ! 9,
       li_metadata = SNull,
       li_created_at = STime (current_timestamp e),
       li_updated_at = STime (current_timestamp e) \<rparr>"

text \<open>
  What PostgreSQL checks before the row is stored: the ten parameters against the column
  types, NOT NULL, the primary key, and the foreign key to the order. schema.sql has no
  CHECK constraint.
\<close>

definition line_item_violation :: "env \<Rightarrow> db \<Rightarrow> sqlval list \<Rightarrow> db_error option" where
  "line_item_violation e d ps =
     (if \<not> (fits e UUID (ps ! 0) \<and> fits e UUID (ps ! 1) \<and> fits e UUID (ps ! 2)
            \<and> fits e VARCHAR (ps ! 3) \<and> fits e VARCHAR (ps ! 4) \<and> fits e VARCHAR (ps ! 5)
            \<and> fits e NUMERIC (ps ! 6) \<and> fits e BIGINT (ps ! 7) \<and> fits e NUMERIC (ps ! 8)
            \<and> fits e TEXT (ps ! 9))
      then Some InvalidInput
      else if ps ! 0 = SNull \<or> ps ! 1 = SNull \<or> ps ! 2 = SNull \<or> ps ! 3 = SNull
            \<or> ps ! 9 = SNull
      then Some NotNullViolation
      else if gen_random_uuid e \<in> set (map li_id (order_line_items d))
      then Some UniqueViolation
      else if \<not> references (map o_id (orders d)) (ps ! 2) then Some ForeignKeyViolation
      else None)"

text \<open>The row that POST /api/order-line-items stores and returns (RETURNING *).\<close>

definition posted_line_item :: "env \<Rightarrow> body \<Rightarrow> line_item_row" where
  "posted_line_item e b = new_line_item e (line_item_params e b)"

definition post_order_line_item ::
  "env \<Rightarrow> db \<Rightarrow> body \<Rightarrow> line_item_row response \<times> db" where
  "post_order_line_item e d b =
     (if \<not> truthy (b ''order_id'') \<or> \<not> truthy (b ''name'') \<or> \<not> truthy (b ''location_id'')
      then (Error 400 ''order_id, name, and location_id are required'', d)
      else
        case line_item_violation e d (line_item_params e b) of
          Some err \<Rightarrow> (ServerError (DbFailure err), d)
        | None \<Rightarrow>
            (Json 201 (posted_line_item e b),
             d\<lparr>order_line_items := order_line_items d @ [posted_line_item e b]\<rparr>))"

text \<open>
  UPDATE order\_line\_item SET name = COALESCE(\$1, name), ... WHERE id = \$6 RETURNING *:
  the five named columns and updated\_at of every row with that id, quantity and
  labor\_hours as their NUMERIC(10,2) columns store them. The handler answers 404 when no
  row is returned and otherwise sends the first returned row.
\<close>

definition update_line_item :: "env \<Rightarrow> sqlval list \<Rightarrow> line_item_row \<Rightarrow> line_item_row" where
  "update_line_item e ps r =
     r\<lparr> li_name := coalesce (ps ! 0) (li_name r),
        li_quantity := coalesce (store_numeric (ps ! 1)) (li_quantity r),
        li_fixed_price_cents := coalesce (ps ! 2) (li_fixed_price_cents r),
        li_labor_hours := coalesce (store_numeric (ps ! 3)) (li_labor_hours r),
        li_note := coalesce (ps ! 4) (li_note r),
        li_updated_at := STime (current_timestamp e) \<rparr>"

definition put_order_line_item ::
  "env \<Rightarrow> db \<Rightarrow> string \<Rightarrow> body \<Rightarrow> line_item_row response \<times> db" where
  "put_order_line_item e d ident b =
     (let ps = [to_sql (b ''name''), to_sql (b ''quantity''), to_sql (b ''fixed_price_cents''),
                to_sql (b ''labor_hours''), to_sql (b ''note'')]
      in if \<not> (fits e VARCHAR (ps ! 0) \<and> fits e NUMERIC (ps ! 1) \<and> fits e BIGINT (ps ! 2)
               \<and> fits e NUMERIC (ps ! 3) \<and> fits e TEXT (ps ! 4) \<and> fits e UUID (SText ident))
         then (ServerError (DbFailure InvalidInput), d)
         else case filter (\<lambda>r. li_id r = ident) (order_line_items d) of
                [] \<Rightarrow> (Error 404 ''Line item not found'', d)
              | row # rest \<Rightarrow>
                  (Json 200 (update_line_item e ps row),
                   d\<lparr>order_line_items :=
                        map (\<lambda>r. if li_id r = ident then update_line_item e ps r else r)
                          (order_line_items d)\<rparr>))"

section \<open>Transactions (server.js, TRANSACTION ENDPOINTS)\<close>

text \<open>
  What PostgreSQL checks before a transaction row is stored: the parameters against the
  column types, NOT NULL, the primary key, and the foreign keys to order and customer.
\<close>

definition transaction_violation :: "env \<Rightarrow> db \<Rightarrow> transaction_row \<Rightarrow> db_error option" where
  "transaction_violation e d r =
     (if \<not> (fits e UUID (t_company_id r) \<and> fits e UUID (t_location_id r)
            \<and> fits e UUID (t_order_id r) \<and> fits e UUID (t_customer_id r)
            \<and> fits e VARCHAR (t_transaction_type r) \<and> fits e BIGINT (t_amount_cents r)
            \<and> fits e VARCHAR (t_payment_method r) \<and> fits e VARCHAR (t_status r)
            \<and> fits e TEXT (t_note r) \<and> fits e VARCHAR (t_payment_reference r))
      then Some InvalidInput
      else if t_company_id r = SNull \<or> t_location_id r = SNull \<or> t_order_id r = SNull
            \<or> t_customer_id r = SNull \<or> t_transaction_type r = SNull
            \<or> t_amount_cents r = SNull
      then Some NotNullViolation
      else if t_id r \<in> set (map t_id (transactions d)) then Some UniqueViolation
      else if \<not> references (map o_id (orders d)) (t_order_id r)
            \<or> \<not> references (customers d) (t_customer_id r)
      then Some ForeignKeyViolation
      else None)"

definition insert_transaction :: "env \<Rightarrow> db \<Rightarrow> transaction_row \<Rightarrow> db_error + db" where
  "insert_transaction e d r =
     (case transaction_violation e d r of
        Some err \<Rightarrow> Inl err
      | None \<Rightarrow> Inr (d\<lparr>transactions := transactions d @ [r]\<rparr>))"

text \<open>
  POST /api/transactions: the INSERT names company\_id, location\_id, order\_id,
  customer\_id, transaction\_type, amount\_cents, payment\_method, status and note; the
  eighth parameter is the literal \<open>'pending'\<close>.
\<close>

definition posted_transaction :: "env \<Rightarrow> body \<Rightarrow> transaction_row" where
  "posted_transaction e b =
     \<lparr> t_id = gen_random_uuid e,
       t_company_id = to_sql (js_or (b ''company_id'') (JStr (uuidv4 e))),
       t_location_id = to_sql (b ''location_id''),
       t_order_id = to_sql (b ''order_id''),
       t_customer_id = to_sql (b ''customer_id''),
       t_transaction_type = to_sql (js_or (b ''transaction_type'') (JStr ''payment'')),
       t_status = SText ''pending'',
       t_amount_cents = to_sql (b ''amount_cents''),
       t_payment_method = to_sql (b ''payment_method''),
       t_payment_reference = SNull,
       t_applied_date = SNull,
       t_due_date = SNull,
       t_note = to_sql (js_or (b ''note'') (JStr [])),
       t_metadata = SNull,
       t_created_at = STime (current_timestamp e),
       t_updated_at = STime (current_timestamp e) \<rparr>"

definition post_transaction ::
  "env \<Rightarrow> db \<Rightarrow> body \<Rightarrow> transaction_row response \<times> db" where
  "post_transaction e d b =
     (if \<not> truthy (b ''order_id'') \<or> \<not> truthy (b ''customer_id'')
         \<or> \<not> truthy (b ''amount_cents'') \<or> \<not> truthy (b ''location_id'')
      then (Error 400 ''order_id, customer_id, amount_cents, and location_id are required'', d)
      else
        case insert_transaction e d (posted_transaction e b) of
          Inl err \<Rightarrow> (ServerError (DbFailure err), d)
        | Inr d' \<Rightarrow> (Json 201 (posted_transaction e b), d'))"

text \<open>
  PUT /api/transactions/:id: UPDATE "transaction" SET status = COALESCE(\$1, status),
  applied\_date = COALESCE(\$2, applied\_date), note = COALESCE(\$3, note),
  updated\_at = CURRENT\_TIMESTAMP WHERE id = \$4 RETURNING *. The handler answers 404
  when no row is returned and otherwise sends the first returned row.
\<close>

definition update_transaction :: "env \<Rightarrow> sqlval list \<Rightarrow> transaction_row \<Rightarrow> transaction_row" where
  "update_transaction e ps r =
     r\<lparr> t_status := coalesce (ps ! 0) (t_status r),
        t_applied_date := coalesce (ps ! 1) (t_applied_date r),
        t_note := coalesce (ps ! 2) (t_note r),
        t_updated_at := STime (current_timestamp e) \<rparr>"

definition put_transaction ::
  "env \<Rightarrow> db \<Rightarrow> string \<Rightarrow> body \<Rightarrow> transaction_row response \<times> db" where
  "put_transaction e d ident b =
     (let ps = [to_sql (b ''status''), to_sql (b ''applied_date''), to_sql (b ''note'')]
      in if \<not> (fits e VARCHAR (ps ! 0) \<and> fits e TIMESTAMP (ps ! 1) \<and> fits e TEXT (ps ! 2)
               \<and> fits e UUID (SText ident))
         then (ServerError (DbFailure InvalidInput), d)
         else case filter (\<lambda>r. t_id r = ident) (transactions d) of
                [] \<Rightarrow> (Error 404 ''Transaction not found'', d)
              | row # rest \<Rightarrow>
                  (Json 200 (update_transaction e ps row),
                   d\<lparr>transactions :=
                        map (\<lambda>r. if t_id r = ident then update_transaction e ps r else r)
                          (transactions d)\<rparr>))"

section \<open>Payments (server.js, STRIPE PAYMENT ENDPOINTS)\<close>

text \<open>
  The payment provider, as the handlers use it: \<open>paymentIntents.retrieve\<close> and
  \<open>refunds.create\<close> either throw (\<open>Inl\<close> with the error's message: the call failed,
  timed out, or the provider refused it) or return an object.
\<close>

record payment_intent =
  pi_id :: string
  pi_status :: string
  pi_amount :: int
  pi_metadata :: "string \<Rightarrow> jsval"

record refund =
  refund_id :: string
  refund_status :: string
  refund_amount :: int

record gateway =
  retrieve :: "jsval \<Rightarrow> string + payment_intent"
  refunds_create :: "jsval \<Rightarrow> jsval \<Rightarrow> string + refund"

text \<open>
  POST /api/payments/confirm. The INSERT names company\_id, location\_id, order\_id,
  customer\_id, transaction\_type, amount\_cents, payment\_method, status and
  payment\_reference. The body of the success response is the stored row with the
  intent's status and amount.
\<close>

definition confirmed_transaction :: "env \<Rightarrow> body \<Rightarrow> payment_intent \<Rightarrow> transaction_row" where
  "confirmed_transaction e b paymentIntent =
     \<lparr> t_id = gen_random_uuid e,
       t_company_id = to_sql (js_or (pi_metadata paymentIntent ''company_id'') (JStr ''default'')),
       t_location_id =
         to_sql (js_or (b ''location_id'') (pi_metadata paymentIntent ''location_id'')),
       t_order_id = to_sql (b ''order_id''),
       t_customer_id = to_sql (b ''customer_id''),
       t_transaction_type = SText ''payment'',
       t_status = SText ''paid'',
       t_amount_cents = SNum (of_int (pi_amount paymentIntent)),
       t_payment_method = SText ''stripe'',
       t_payment_reference = SText (pi_id paymentIntent),
       t_applied_date = SNull,
       t_due_date = SNull,
       t_note = SNull,
       t_metadata = SNull,
       t_created_at = STime (current_timestamp e),
       t_updated_at = STime (current_timestamp e) \<rparr>"

definition payments_confirm ::
  "env \<Rightarrow> gateway \<Rightarrow> db \<Rightarrow> body \<Rightarrow> (transaction_row \<times> string \<times> int) response \<times> db" where
  "payments_confirm e g d b =
     (if \<not> truthy (b ''payment_intent_id'') \<or> \<not> truthy (b ''order_id'')
         \<or> \<not> truthy (b ''customer_id'')
      then (Error 400 ''payment_intent_id, order_id, and customer_id are required'', d)
      else
        case retrieve g (b ''payment_intent_id'') of
          Inl msg \<Rightarrow> (ServerError (GatewayFailure msg), d)
        | Inr paymentIntent \<Rightarrow>
            if pi_status paymentIntent \<noteq> ''succeeded''
            then (Error 400 (''Payment not successful. Status: '' @ pi_status paymentIntent), d)
            else
              (case insert_transaction e d (confirmed_transaction e b paymentIntent) of
                 Inl err \<Rightarrow> (ServerError (DbFailure err), d)
               | Inr d' \<Rightarrow>
                   (Json 200 (confirmed_transaction e b paymentIntent,
                              pi_status paymentIntent, pi_amount paymentIntent), d')))"

text \<open>POST /api/payments/refund: asks the provider for a refund; no table is written.\<close>

definition payments_refund :: "gateway \<Rightarrow> db \<Rightarrow> body \<Rightarrow> refund response \<times> db" where
  "payments_refund g d b =
     (if \<not> truthy (b ''payment_intent_id'')
      then (Error 400 ''payment_intent_id is required'', d)
      else
        case refunds_create g (b ''payment_intent_id'')
               (js_or (b ''reason'') (JStr ''requested_by_customer'')) of
          Inl msg \<Rightarrow> (ServerError (GatewayFailure msg), d)
        | Inr rf \<Rightarrow> (Json 200 rf, d))"

section \<open>Sequences of requests\<close>

datatype request =
    PostOrderLineItem body
  | PutOrderLineItem string body
  | PostTransaction body
  | PutTransaction string body
  | PaymentsConfirm body
  | PaymentsRefund body

text \<open>The database after one request; each request comes with its own environment.\<close>

fun handle :: "db \<Rightarrow> env \<times> gateway \<times> request \<Rightarrow> db" where
  "handle d (e, g, PostOrderLineItem b) = snd (post_order_line_item e d b)"
| "handle d (e, g, PutOrderLineItem i b) = snd (put_order_line_item e d i b)"
| "handle d (e, g, PostTransaction b) = snd (post_transaction e d b)"
| "handle d (e, g, PutTransaction i b) = snd (put_transaction e d i b)"
| "handle d (e, g, PaymentsConfirm b) = snd (payments_confirm e g d b)"
| "handle d (e, g, PaymentsRefund b) = snd (payments_refund g d b)"

definition run :: "db \<Rightarrow> (env \<times> gateway \<times> request) list \<Rightarrow> db" where
  "run d rs = foldl handle d rs"

section \<open>The ledger design of the specification\<close>

text \<open>
  schema.sql declares the columns of the order totals and of the ledger, and server.js
  stores and returns them, but no function of the repository computes a line total, a
  rollup or a balance. The definitions of this section follow sections 4.1 to 4.4 of the
  specification.
\<close>

text \<open>
  Modelled from the spec: \<open>apply_percent\<close> (section 4.1), missing from the repository.
  The percentage is given in hundredths of a percent (the NUMERIC(5,2) of schema.sql); the
  result is rounded half-up to the cent.
\<close>

definition apply_percent :: "int \<Rightarrow> int \<Rightarrow> int" where
  "apply_percent base_cents percent = (base_cents * percent + 5000) div 10000"

text \<open>
  Modelled from the spec: the LineItem of section 3 (pricing mode, category tag,
  quantity, rate, labor hours, discount and tax as amount or percentage, taxable and
  hidden flags), which the repository has only as columns of order\_line\_item.
\<close>

datatype pricing_mode = FixedPrice | LaborRate | PartsCost

datatype category_tag = Labor | Parts | Subcontract | ShopSupply

record line_item =
  pricing :: pricing_mode
  category :: category_tag
  quantity :: int
  labor_hours :: int
  unit_rate_cents :: int
  fixed_price_cents :: int
  discount_cents :: int
  discount_percent :: int
  tax_cents :: int
  tax_percent :: int
  taxable :: bool
  hidden :: bool

datatype pricing_error = InvalidLineItem

text \<open>
  Modelled from the spec: the quantity of the Line Item Pricing Engine (section 4.2),
  missing from the repository: LaborRate uses the labor hours as quantity.
\<close>

definition line_quantity :: "line_item \<Rightarrow> int" where
  "line_quantity i = (if pricing i = LaborRate then labor_hours i else quantity i)"

text \<open>
  Modelled from the spec: the base of section 4.2, missing from the repository: the
  fixed price for FixedPrice, else rate times quantity.
\<close>

definition line_base :: "line_item \<Rightarrow> int" where
  "line_base i =
     (if pricing i = FixedPrice then fixed_price_cents i else unit_rate_cents i * line_quantity i)"

text \<open>
  Modelled from the spec: the discount of section 4.2, missing from the repository: the
  fixed amount, or else the percentage of the base, subtracted and floored at zero.
\<close>

definition line_post_discount :: "line_item \<Rightarrow> int" where
  "line_post_discount i =
     max 0 (line_base i -
            (if discount_cents i \<noteq> 0 then discount_cents i
             else apply_percent (line_base i) (discount_percent i)))"

text \<open>
  Modelled from the spec: the tax of section 4.2, missing from the repository: the fixed
  amount, or else the percentage of the post-discount amount; none when the item is not
  taxable.
\<close>

definition line_tax :: "line_item \<Rightarrow> int" where
  "line_tax i =
     (if \<not> taxable i then 0
      else if tax_cents i \<noteq> 0 then tax_cents i
      else apply_percent (line_post_discount i) (tax_percent i))"

text \<open>
  Modelled from the spec: the error condition of section 4.2, missing from the
  repository: a negative quantity or a negative base.
\<close>

definition invalid_line_item :: "line_item \<Rightarrow> bool" where
  "invalid_line_item i = (line_quantity i < 0 \<or> line_base i < 0)"

text \<open>
  Modelled from the spec: \<open>compute_line_total\<close> (section 4.2), missing from the
  repository: InvalidLineItem, or the post-discount amount plus the tax.
\<close>

definition compute_line_total :: "line_item \<Rightarrow> pricing_error + int" where
  "compute_line_total i =
     (if invalid_line_item i then Inl InvalidLineItem
      else Inr (line_post_discount i + line_tax i))"

text \<open>
  Modelled from the spec: OrderTotals and the Order of section 3 (its percentages and
  its computed fields), which the repository has only as columns of the order table.
\<close>

record order_totals =
  labor :: int
  parts :: int
  subcontract :: int
  shop_supply :: int
  subtotal :: int
  discount :: int
  tax :: int
  total :: int

record order =
  order_discount_percent :: int
  order_tax_percent :: int
  computed :: order_totals

text \<open>
  Modelled from the spec: step 1 of the Order Rollup Aggregator (section 4.3), missing
  from the repository: the post-discount amounts of the visible items of one category.
\<close>

definition category_sum :: "category_tag \<Rightarrow> line_item list \<Rightarrow> int" where
  "category_sum c items =
     sum_list (map line_post_discount (filter (\<lambda>i. \<not> hidden i \<and> category i = c) items))"

text \<open>
  Modelled from the spec: \<open>recompute_order_totals\<close> (section 4.3), missing from the
  repository. Steps 2 to 5: the subtotal of the visible items, the order-level discount
  (never more than the subtotal, never negative), the order-level tax on the discounted
  subtotal, and the total with the line-level taxes added.
\<close>

definition recompute_order_totals :: "order \<Rightarrow> line_item list \<Rightarrow> pricing_error + order_totals" where
  "recompute_order_totals ord items =
     (if list_ex invalid_line_item items then Inl InvalidLineItem
      else
        let visible = filter (\<lambda>i. \<not> hidden i) items;
            sub = sum_list (map line_post_discount visible);
            disc = min sub (max 0 (apply_percent sub (order_discount_percent ord)));
            discounted = sub - disc;
            order_tax = apply_percent discounted (order_tax_percent ord);
            line_taxes = sum_list (map line_tax visible)
        in Inr \<lparr> labor = category_sum Labor items,
                 parts = category_sum Parts items,
                 subcontract = category_sum Subcontract items,
                 shop_supply = category_sum ShopSupply items,
                 subtotal = sub,
                 discount = disc,
                 tax = order_tax + line_taxes,
                 total = discounted + order_tax + line_taxes \<rparr>)"

text \<open>
  Modelled from the spec: storing a rollup in the order's computed fields (section 3),
  missing from the repository.
\<close>

definition store_totals :: "order \<Rightarrow> order_totals \<Rightarrow> order" where
  "store_totals ord t = ord\<lparr>computed := t\<rparr>"

text \<open>
  Modelled from the spec: the Transaction of section 3 (kind, status, unsigned amount,
  payment reference) and the balance state of section 4.4, which the repository has only
  as columns of the transaction table.
\<close>

datatype txn_kind = Payment | Refund | AuthorizationHold | Adjustment

datatype txn_status = Pending | Succeeded | Failed | Voided

record txn =
  kind :: txn_kind
  status :: txn_status
  amount_cents :: int
  payment_reference :: string

record balance_state =
  total_cents :: int
  paid_cents :: int
  refunded_cents :: int
  due_cents :: int
  credit_cents :: int

text \<open>
  Modelled from the spec: the sums of the balance operation (section 4.4), missing from
  the repository: one pass over the transactions adds the succeeded payments and the
  succeeded refunds.
\<close>

fun tally :: "txn list \<Rightarrow> int \<times> int" where
  "tally [] = (0, 0)"
| "tally (t # ts) =
     (case tally ts of
        (paid, refunded) \<Rightarrow>
          if status t = Succeeded \<and> kind t = Payment then (paid + amount_cents t, refunded)
          else if status t = Succeeded \<and> kind t = Refund then (paid, refunded + amount_cents t)
          else (paid, refunded))"

text \<open>
  Modelled from the spec: \<open>balance\<close> (section 4.4), missing from the repository:
  what is due is floored at zero and an overpayment is reported as credit.
\<close>

definition balance :: "order \<Rightarrow> txn list \<Rightarrow> balance_state" where
  "balance ord ts =
     (case tally ts of
        (paid, refunded) \<Rightarrow>
          \<lparr> total_cents = total (computed ord),
            paid_cents = paid,
            refunded_cents = refunded,
            due_cents = max 0 (total (computed ord) - paid + refunded),
            credit_cents = max 0 (paid - refunded - total (computed ord)) \<rparr>)"

text \<open>
  Modelled from the spec: the number a column holds, for reading stored rows as the
  records of section 3 (the repository never reads them so); the whole part of a
  fractional number is taken, and a column that holds no number counts as zero.
\<close>

definition sql_int :: "sqlval \<Rightarrow> int" where
  "sql_int v = (case v of SNum q \<Rightarrow> \<lfloor>q\<rfloor> | _ \<Rightarrow> 0)"

text \<open>
  Modelled from the spec: a stored line item read as the LineItem of section 3, which
  the repository never does. The pricing and category tags are the strings of the row, a
  percent column holds whole percents, and every stored item is taken as taxable.
\<close>

definition line_item_of_row :: "line_item_row \<Rightarrow> line_item" where
  "line_item_of_row r =
     \<lparr> pricing = (if li_pricing r = SText ''labor'' then LaborRate
                  else if li_pricing r = SText ''parts'' then PartsCost
                  else FixedPrice),
       category = (if li_category r = SText ''parts'' then Parts
                   else if li_category r = SText ''subcontract'' then Subcontract
                   else if li_category r = SText ''shop_supply'' then ShopSupply
                   else Labor),
       quantity = sql_int (li_quantity r),
       labor_hours = sql_int (li_labor_hours r),
       unit_rate_cents = (if li_pricing r = SText ''labor'' then sql_int (li_labor_rate_cents r)
                          else sql_int (li_parts_cost_cents r)),
       fixed_price_cents = sql_int (li_fixed_price_cents r),
       discount_cents = sql_int (li_discount_cents r),
       discount_percent = 100 * sql_int (li_discount_percent r),
       tax_cents = sql_int (li_tax_cents r),
       tax_percent = 100 * sql_int (li_tax_percent r),
       taxable = True,
       hidden = (li_hidden r = SBool True) \<rparr>"

text \<open>
  Modelled from the spec: the computed fields of section 3 as an order row stores them.
\<close>

definition stored_totals :: "order_row \<Rightarrow> order_totals" where
  "stored_totals r =
     \<lparr> labor = sql_int (calculated_labor_cents r),
       parts = sql_int (calculated_parts_cents r),
       subcontract = sql_int (calculated_subcontracts_cents r),
       shop_supply = sql_int (calculated_shop_supplies_cents r),
       subtotal = sql_int (calculated_subtotal_cents r),
       discount = sql_int (calculated_discount_cents r),
       tax = sql_int (calculated_tax_cents r),
       total = sql_int (calculated_total_cents r) \<rparr>"

text \<open>
  Modelled from the spec: a stored order read as the Order of section 3.
\<close>

definition order_of_row :: "order_row \<Rightarrow> order" where
  "order_of_row r =
     \<lparr> order_discount_percent = 100 * sql_int (o_discount_percent r),
       order_tax_percent = 100 * sql_int (o_tax_percent r),
       computed = stored_totals r \<rparr>"

text \<open>
  Modelled from the spec: the line items an order owns (section 3), by order\_id.
\<close>

definition items_of_order :: "db \<Rightarrow> order_row \<Rightarrow> line_item list" where
  "items_of_order d r =
     map line_item_of_row (filter (\<lambda>i. li_order_id i = SText (o_id r)) (order_line_items d))"

text \<open>
  Modelled from the spec: the invariant of section 3, which no code of the repository
  maintains: the stored totals of every order are the rollup of its current line items.
\<close>

definition totals_are_rollup :: "db \<Rightarrow> bool" where
  "totals_are_rollup d =
     list_all (\<lambda>r. recompute_order_totals (order_of_row r) (items_of_order d r)
                     = Inr (stored_totals r)) (orders d)"

section \<open>A small database and some requests\<close>

text \<open>
  An input check for the examples: a UUID is a text of 36 characters, a BIGINT a whole
  number of 64 bits, a NUMERIC(10,2) a number below 100000000 once rounded, and the text
  types take any text.
\<close>

definition accepts :: "coltype \<Rightarrow> sqlval \<Rightarrow> bool" where
  "accepts ty v =
     (case v of
        SText s \<Rightarrow> (if ty = UUID then length s = 36 else ty = VARCHAR \<or> ty = TEXT \<or> ty = TIMESTAMP)
      | SNum q \<Rightarrow> (if ty = BIGINT then of_int \<lfloor>q\<rfloor> = q \<and> \<bar>q\<bar> < 9223372036854775808
                   else ty = NUMERIC \<and> \<bar>numeric_10_2 q\<bar> < 100000000)
      | _ \<Rightarrow> False)"

definition env1 :: env where
  "env1 = \<lparr> gen_random_uuid = ''00000000-0000-4000-8000-0000000000a1'',
            uuidv4 = ''00000000-0000-4000-8000-0000000000b1'',
            current_timestamp = 1000,
            pg_input = accepts \<rparr>"

definition env2 :: env where
  "env2 = \<lparr> gen_random_uuid = ''00000000-0000-4000-8000-0000000000a2'',
            uuidv4 = ''00000000-0000-4000-8000-0000000000b2'',
            current_timestamp = 2000,
            pg_input = accepts \<rparr>"

definition order1 :: order_row where
  "order1 = \<lparr> o_id = ''00000000-0000-4000-8000-000000000001'',
              o_company_id = SText ''00000000-0000-4000-8000-0000000000c1'',
              o_location_id = SText ''00000000-0000-4000-8000-0000000000d1'',
              o_customer_id = SText ''00000000-0000-4000-8000-0000000000e1'',
              o_status = SText ''open'',
              o_priority = SText ''normal'',
              o_note = SText [],
              o_service_writer_id = SNull,
              calculated_labor_cents = SNum 0,
              calculated_parts_cents = SNum 0,
              calculated_subcontracts_cents = SNum 0,
              calculated_shop_supplies_cents = SNum 0,
              calculated_discount_cents = SNum 0,
              calculated_tax_cents = SNum 0,
              calculated_subtotal_cents = SNum 0,
              calculated_total_cents = SNum 0,
              o_discount_percent = SNum 0,
              o_tax_percent = SNum 0,
              o_deferred = SBool False,
              o_updated_at = STime 0,
              o_deleted = SBool False \<rparr>"

definition authorization1 :: authorization_row where
  "authorization1 = \<lparr> a_id = ''00000000-0000-4000-8000-0000000000f1'',
                      a_order_id = SText ''00000000-0000-4000-8000-000000000001'',
                      a_customer_id = SText ''00000000-0000-4000-8000-0000000000e1'',
                      authorized_cost_cents = SNum 20000,
                      a_method = SText ''phone'',
                      a_date = STime 0 \<rparr>"

definition db1 :: db where
  "db1 = \<lparr> customers = [''00000000-0000-4000-8000-0000000000e1''],
           orders = [order1],
           order_line_items = [],
           transactions = [],
           authorizations = [authorization1] \<rparr>"

definition no_body :: body where
  "no_body key = Undefined"

definition item_body :: body where
  "item_body = no_body
     (''order_id'' := JStr ''00000000-0000-4000-8000-000000000001'',
      ''location_id'' := JStr ''00000000-0000-4000-8000-0000000000d1'',
      ''name'' := JStr ''Oil change'',
      ''category'' := JStr ''labor'',
      ''quantity'' := JNum 1,
      ''fixed_price_cents'' := JNum 10000)"

definition negative_item_body :: body where
  "negative_item_body = item_body
     (''quantity'' := JNum (- 1), ''fixed_price_cents'' := JNum (- 500))"

definition payment_body :: body where
  "payment_body = no_body
     (''order_id'' := JStr ''00000000-0000-4000-8000-000000000001'',
      ''customer_id'' := JStr ''00000000-0000-4000-8000-0000000000e1'',
      ''location_id'' := JStr ''00000000-0000-4000-8000-0000000000d1'',
      ''amount_cents'' := JNum 25000)"

definition confirm_body :: body where
  "confirm_body = no_body
     (''payment_intent_id'' := JStr ''pi_1'',
      ''order_id'' := JStr ''00000000-0000-4000-8000-000000000001'',
      ''customer_id'' := JStr ''00000000-0000-4000-8000-0000000000e1'',
      ''location_id'' := JStr ''00000000-0000-4000-8000-0000000000d1'')"

definition intent1 :: payment_intent where
  "intent1 = \<lparr> pi_id = ''pi_1'',
               pi_status = ''succeeded'',
               pi_amount = 25000,
               pi_metadata = no_body
                 (''company_id'' := JStr ''00000000-0000-4000-8000-0000000000c1'') \<rparr>"

definition no_refund :: "jsval \<Rightarrow> jsval \<Rightarrow> string + refund" where
  "no_refund i reason = Inl ''No such payment_intent''"

definition retrieve_succeeded :: "jsval \<Rightarrow> string + payment_intent" where
  "retrieve_succeeded i = Inr intent1"

definition retrieve_processing :: "jsval \<Rightarrow> string + payment_intent" where
  "retrieve_processing i = Inr (intent1\<lparr>pi_status := ''processing''\<rparr>)"

definition retrieve_timeout :: "jsval \<Rightarrow> string + payment_intent" where
  "retrieve_timeout i = Inl ''Request timed out''"

definition gateway_succeeded :: gateway where
  "gateway_succeeded = \<lparr> retrieve = retrieve_succeeded, refunds_create = no_refund \<rparr>"

definition gateway_processing :: gateway where
  "gateway_processing = \<lparr> retrieve = retrieve_processing, refunds_create = no_refund \<rparr>"

definition gateway_timeout :: gateway where
  "gateway_timeout = \<lparr> retrieve = retrieve_timeout, refunds_create = no_refund \<rparr>"

definition db2 :: db where
  "db2 = snd (post_order_line_item env1 db1 item_body)"

definition quantity_body :: body where
  "quantity_body = no_body(''quantity'' := JNum 3)"

definition payment1 :: transaction_row where
  "payment1 = \<lparr> t_id = ''00000000-0000-4000-8000-0000000000a0'',
                t_company_id = SText ''00000000-0000-4000-8000-0000000000c1'',
                t_location_id = SText ''00000000-0000-4000-8000-0000000000d1'',
                t_order_id = SText ''00000000-0000-4000-8000-000000000001'',
                t_customer_id = SText ''00000000-0000-4000-8000-0000000000e1'',
                t_transaction_type = SText ''payment'',
                t_status = SText ''succeeded'',
                t_amount_cents = SNum 25000,
                t_payment_method = SText ''stripe'',
                t_payment_reference = SText ''pi_1'',
                t_applied_date = SNull,
                t_due_date = SNull,
                t_note = SNull,
                t_metadata = SNull,
                t_created_at = STime 500,
                t_updated_at = STime 500 \<rparr>"

definition db3 :: db where
  "db3 = db1\<lparr>transactions := [payment1]\<rparr>"



definition scenario_items :: "line_item list" where
  "scenario_items =
     [\<lparr> pricing = FixedPrice, category = Labor, quantity = 1, labor_hours = 0,
         unit_rate_cents = 0, fixed_price_cents = 10000, discount_cents = 0,
         discount_percent = 0, tax_cents = 0, tax_percent = 800, taxable = True,
         hidden = False \<rparr>,
      \<lparr> pricing = PartsCost, category = Parts, quantity = 1, labor_hours = 0,
         unit_rate_cents = 5000, fixed_price_cents = 0, discount_cents = 0,
         discount_percent = 0, tax_cents = 0, tax_percent = 0, taxable = False,
         hidden = False \<rparr>]"

definition scenario_totals :: order_totals where
  "scenario_totals =
     \<lparr> labor = 10000, parts = 5000, subcontract = 0, shop_supply = 0, subtotal = 15000,
       discount = 1500, tax = 800, total = 14300 \<rparr>"

definition scenario_order :: order where
  "scenario_order =
     \<lparr> order_discount_percent = 1000, order_tax_percent = 0,
       computed = \<lparr> labor = 0, parts = 0, subcontract = 0, shop_supply = 0, subtotal = 0,
                    discount = 0, tax = 0, total = 0 \<rparr> \<rparr>"

definition scenario_ledger :: "txn list" where
  "scenario_ledger =
     [\<lparr> kind = Payment, status = Succeeded, amount_cents = 10000, payment_reference = ''pi_1'' \<rparr>,
      \<lparr> kind = Refund, status = Succeeded, amount_cents = 3000, payment_reference = ''re_1'' \<rparr>,
      \<lparr> kind = Payment, status = Pending, amount_cents = 5000, payment_reference = ''pi_2'' \<rparr>]"

section \<open>Facts about the embedding\<close>

lemmas example_defs = env1_def env2_def db1_def order1_def authorization1_def no_body_def
  item_body_def negative_item_body_def payment_body_def confirm_body_def intent1_def
  retrieve_succeeded_def retrieve_processing_def retrieve_timeout_def gateway_succeeded_def
  gateway_processing_def gateway_timeout_def accepts_def

subsection \<open>Creating a transaction\<close>

lemma insert_transaction_Inr:
  "insert_transaction e d r = Inr d' \<Longrightarrow> d' = d\<lparr>transactions := transactions d @ [r]\<rparr>"
  by (cases "transaction_violation e d r") (simp_all add: insert_transaction_def)

lemma transaction_violation_authorizations:
  "transaction_violation e (d\<lparr>authorizations := a\<rparr>) r = transaction_violation e d r"
  by (simp add: transaction_violation_def)

lemma insert_transaction_authorizations:
  "insert_transaction e (d\<lparr>authorizations := a\<rparr>) r
     = map_sum id (\<lambda>d'. d'\<lparr>authorizations := a\<rparr>) (insert_transaction e d r)"
  by (cases "transaction_violation e d r")
     (simp_all add: insert_transaction_def transaction_violation_authorizations)

lemma body_update_other:
  "k \<noteq> key \<Longrightarrow> (b(k := v)) key = (b::body) key"
  by simp

lemma post_transaction_ignores:
  assumes "k \<notin> {''company_id'', ''location_id'', ''order_id'', ''customer_id'',
                 ''transaction_type'', ''amount_cents'', ''payment_method'', ''note''}"
  shows "post_transaction e d (b(k := v)) = post_transaction e d b"
proof -
  from assms have "k \<noteq> ''company_id''" "k \<noteq> ''location_id''" "k \<noteq> ''order_id''"
    "k \<noteq> ''customer_id''" "k \<noteq> ''transaction_type''" "k \<noteq> ''amount_cents''"
    "k \<noteq> ''payment_method''" "k \<noteq> ''note''"
    by simp_all
  note keys = this
  have row: "posted_transaction e (b(k := v)) = posted_transaction e b"
    using keys by (simp add: posted_transaction_def)
  show ?thesis
    unfolding post_transaction_def row using keys by simp
qed

lemma post_transaction_result:
  "post_transaction e d b = (Json 201 (posted_transaction e b),
                             d\<lparr>transactions := transactions d @ [posted_transaction e b]\<rparr>)
   \<or> (status_code (fst (post_transaction e d b)) \<noteq> 201 \<and> snd (post_transaction e d b) = d)"
proof (cases "insert_transaction e d (posted_transaction e b)")
  case (Inl err)
  then show ?thesis by (simp add: post_transaction_def)
next
  case (Inr d')
  with insert_transaction_Inr [OF Inr] show ?thesis by (simp add: post_transaction_def)
qed

text \<open>
  C9. Every transaction created through POST /api/transactions is stored with status
  \<open>'pending'\<close>: when the endpoint answers 201, exactly one row is appended and its
  status is \<open>'pending'\<close>; in every other case the database is unchanged; and a
  \<open>status\<close> value in the request body changes neither the response nor the database.
\<close>

theorem post_transaction_stores_pending:
  "(status_code (fst (post_transaction e d b)) = 201 \<longrightarrow>
      (\<exists>r. post_transaction e d b = (Json 201 r, d\<lparr>transactions := transactions d @ [r]\<rparr>)
           \<and> t_status r = SText ''pending''))
   \<and> (status_code (fst (post_transaction e d b)) \<noteq> 201 \<longrightarrow> snd (post_transaction e d b) = d)
   \<and> post_transaction e d (b(''status'' := v)) = post_transaction e d b"
proof (intro conjI impI)
  assume "status_code (fst (post_transaction e d b)) = 201"
  with post_transaction_result [of e d b]
  have "post_transaction e d b = (Json 201 (posted_transaction e b),
          d\<lparr>transactions := transactions d @ [posted_transaction e b]\<rparr>)"
    by blast
  moreover have "t_status (posted_transaction e b) = SText ''pending''"
    by (simp add: posted_transaction_def)
  ultimately show "\<exists>r. post_transaction e d b
                         = (Json 201 r, d\<lparr>transactions := transactions d @ [r]\<rparr>)
                       \<and> t_status r = SText ''pending''"
    by blast
next
  assume "status_code (fst (post_transaction e d b)) \<noteq> 201"
  with post_transaction_result [of e d b] show "snd (post_transaction e d b) = d"
    by auto
next
  show "post_transaction e d (b(''status'' := v)) = post_transaction e d b"
    by (rule post_transaction_ignores) simp
qed

lemma payment_body_created:
  "status_code (fst (post_transaction env1 db1 payment_body)) = 201"
  by (simp add: post_transaction_def insert_transaction_def transaction_violation_def
      posted_transaction_def fits_def references_def js_or_def example_defs)

theorem post_transaction_stores_pending_witness:
  "status_code (fst (post_transaction env1 db1 (payment_body(''status'' := JStr ''succeeded'')))) = 201
   \<and> map t_status (transactions (snd (post_transaction env1 db1 (payment_body(''status'' := JStr ''succeeded'')))))
       = [SText ''pending'']"
proof -
  note claim = post_transaction_stores_pending [of env1 db1 payment_body "JStr ''succeeded''"]
  from claim have same: "post_transaction env1 db1 (payment_body(''status'' := JStr ''succeeded''))
              = post_transaction env1 db1 payment_body"
    by blast
  from claim payment_body_created obtain r where
    r: "post_transaction env1 db1 payment_body
          = (Json 201 r, db1\<lparr>transactions := transactions db1 @ [r]\<rparr>)"
       "t_status r = SText ''pending''"
    by blast
  have "transactions db1 = []"
    by (simp add: db1_def)
  with r payment_body_created show ?thesis
    unfolding same by simp
qed

text \<open>
  C3, as the code has it. POST /api/transactions makes no authorization check: its
  response and the rows it stores do not depend on the authorization table, and no key
  of the body other than the eight it reads (an override flag, for one) changes the
  outcome.
\<close>

theorem post_transaction_no_authorization_check:
  "post_transaction e (d\<lparr>authorizations := a\<rparr>) b
     = (fst (post_transaction e d b), (snd (post_transaction e d b))\<lparr>authorizations := a\<rparr>)
   \<and> (k \<notin> {''company_id'', ''location_id'', ''order_id'', ''customer_id'', ''transaction_type'',
             ''amount_cents'', ''payment_method'', ''note''}
        \<longrightarrow> post_transaction e d (b(k := v)) = post_transaction e d b)"
proof (intro conjI impI)
  show "post_transaction e (d\<lparr>authorizations := a\<rparr>) b
        = (fst (post_transaction e d b), (snd (post_transaction e d b))\<lparr>authorizations := a\<rparr>)"
    by (cases "insert_transaction e d (posted_transaction e b)")
       (simp_all add: post_transaction_def insert_transaction_authorizations)
qed (rule post_transaction_ignores)

theorem post_transaction_no_authorization_check_witness:
  "''override'' \<notin> {''company_id'', ''location_id'', ''order_id'', ''customer_id'',
       ''transaction_type'', ''amount_cents'', ''payment_method'', ''note''}
   \<and> post_transaction env1 db1 (payment_body(''override'' := JBool True))
       = post_transaction env1 db1 payment_body"
  using post_transaction_no_authorization_check
          [where e = env1 and d = db1 and b = payment_body and k = "''override''"
             and v = "JBool True"]
  by simp

text \<open>
  C3 as stated fails: with an authorized ceiling of 20000 cents and no override flag, a
  payment of 25000 cents is accepted (201) and stored, with status \<open>'pending'\<close>.
\<close>

theorem over_authorization_counterexample:
  "status_code (fst (post_transaction env1 db1 payment_body)) = 201
   \<and> map t_amount_cents (transactions (snd (post_transaction env1 db1 payment_body))) = [SNum 25000]
   \<and> map t_status (transactions (snd (post_transaction env1 db1 payment_body))) = [SText ''pending'']
   \<and> map authorized_cost_cents (authorizations db1) = [SNum 20000]
   \<and> payment_body ''override'' = Undefined"
  by (simp add: post_transaction_def insert_transaction_def transaction_violation_def
        posted_transaction_def fits_def references_def js_or_def example_defs)

subsection \<open>Line items\<close>

text \<open>
  What POST /api/order-line-items can answer: 201 with the row it appended, or another
  status with the database as it was.
\<close>

lemma post_order_line_item_result:
  "post_order_line_item e d b
     = (Json 201 (posted_line_item e b),
        d\<lparr>order_line_items := order_line_items d @ [posted_line_item e b]\<rparr>)
   \<or> (status_code (fst (post_order_line_item e d b)) \<noteq> 201
      \<and> snd (post_order_line_item e d b) = d)"
  by (cases "line_item_violation e d (line_item_params e b)")
     (simp_all add: post_order_line_item_def)







lemma numeric_10_2_examples:
  "numeric_10_2 (201 / 200) = 101 / 100"
  "numeric_10_2 (- 1) = - 1"
  "numeric_10_2 1 = 1"
  "numeric_10_2 3 = 3"
  by (simp_all add: numeric_10_2_def floor_eq_iff)





lemma put_order_line_item_cases:
  "put_order_line_item e d ident b = (ServerError (DbFailure InvalidInput), d)
   \<or> put_order_line_item e d ident b = (Error 404 ''Line item not found'', d)
   \<or> (\<exists>row. put_order_line_item e d ident b
          = (Json 200 row,
             d\<lparr>order_line_items :=
                  map (\<lambda>r. if li_id r = ident
                            then update_line_item e
                                   [to_sql (b ''name''), to_sql (b ''quantity''),
                                    to_sql (b ''fixed_price_cents''), to_sql (b ''labor_hours''),
                                    to_sql (b ''note'')] r
                            else r)
                    (order_line_items d)\<rparr>))"
proof (cases "fits e VARCHAR (to_sql (b ''name'')) \<and> fits e NUMERIC (to_sql (b ''quantity''))
               \<and> fits e BIGINT (to_sql (b ''fixed_price_cents''))
               \<and> fits e NUMERIC (to_sql (b ''labor_hours''))
               \<and> fits e TEXT (to_sql (b ''note'')) \<and> fits e UUID (SText ident)")
  case False
  then have "put_order_line_item e d ident b = (ServerError (DbFailure InvalidInput), d)"
    by (auto simp add: put_order_line_item_def Let_def)
  then show ?thesis by simp
next
  case True
  show ?thesis
  proof (cases "filter (\<lambda>r. li_id r = ident) (order_line_items d)")
    case Nil
    with \<open>fits e VARCHAR (to_sql (b ''name'')) \<and> _\<close>
    have "put_order_line_item e d ident b = (Error 404 ''Line item not found'', d)"
      by (simp add: put_order_line_item_def Let_def)
    then show ?thesis by simp
  next
    case (Cons row rest)
    with \<open>fits e VARCHAR (to_sql (b ''name'')) \<and> _\<close>
    show ?thesis
      by (simp add: put_order_line_item_def Let_def)
  qed
qed

lemma put_order_line_item_unchanged:
  "status_code (fst (put_order_line_item e d ident b)) \<noteq> 200
     \<Longrightarrow> snd (put_order_line_item e d ident b) = d"
  using put_order_line_item_cases [of e d ident b] by auto

lemma put_order_line_item_updated:
  "status_code (fst (put_order_line_item e d ident b)) = 200
     \<Longrightarrow> snd (put_order_line_item e d ident b)
          = d\<lparr>order_line_items :=
                map (\<lambda>r. if li_id r = ident
                          then update_line_item e
                                 [to_sql (b ''name''), to_sql (b ''quantity''),
                                  to_sql (b ''fixed_price_cents''), to_sql (b ''labor_hours''),
                                  to_sql (b ''note'')] r
                          else r)
                  (order_line_items d)\<rparr>"
  using put_order_line_item_cases [of e d ident b] by auto

lemma coalesce_omitted:
  "v = Undefined \<or> v = JNull \<Longrightarrow> coalesce (to_sql v) old = old"
  by auto

text \<open>
  C10. PUT /api/order-line-items/:id: when the answer is not 200 the database is
  unchanged. When it is 200, the other tables and the number of line items are
  unchanged, every row with another id is unchanged, and in a row with that id each of
  name, quantity, fixed\_price\_cents, labor\_hours and note that the body omits (or gives
  as null) keeps its value, updated\_at is the current timestamp, and every other column
  (order\_id, pricing, discount\_cents, discount\_percent, tax\_cents, tax\_percent,
  total\_cents, hidden and status among them) is as before.
\<close>

theorem put_order_line_item_frame:
  "(status_code (fst (put_order_line_item e d ident b)) \<noteq> 200
      \<longrightarrow> snd (put_order_line_item e d ident b) = d)
   \<and> (status_code (fst (put_order_line_item e d ident b)) = 200 \<longrightarrow>
        orders (snd (put_order_line_item e d ident b)) = orders d
      \<and> transactions (snd (put_order_line_item e d ident b)) = transactions d
      \<and> length (order_line_items (snd (put_order_line_item e d ident b)))
          = length (order_line_items d)
      \<and> (\<forall>n < length (order_line_items d).
            let r = order_line_items d ! n;
                r' = order_line_items (snd (put_order_line_item e d ident b)) ! n
            in if li_id r \<noteq> ident then r' = r
               else (b ''name'' = Undefined \<or> b ''name'' = JNull \<longrightarrow> li_name r' = li_name r)
                  \<and> (b ''quantity'' = Undefined \<or> b ''quantity'' = JNull
                       \<longrightarrow> li_quantity r' = li_quantity r)
                  \<and> (b ''fixed_price_cents'' = Undefined \<or> b ''fixed_price_cents'' = JNull
                       \<longrightarrow> li_fixed_price_cents r' = li_fixed_price_cents r)
                  \<and> (b ''labor_hours'' = Undefined \<or> b ''labor_hours'' = JNull
                       \<longrightarrow> li_labor_hours r' = li_labor_hours r)
                  \<and> (b ''note'' = Undefined \<or> b ''note'' = JNull \<longrightarrow> li_note r' = li_note r)
                  \<and> li_updated_at r' = STime (current_timestamp e)
                  \<and> li_order_id r' = li_order_id r \<and> li_pricing r' = li_pricing r
                  \<and> li_discount_cents r' = li_discount_cents r
                  \<and> li_discount_percent r' = li_discount_percent r
                  \<and> li_tax_cents r' = li_tax_cents r \<and> li_tax_percent r' = li_tax_percent r
                  \<and> li_total_cents r' = li_total_cents r \<and> li_hidden r' = li_hidden r
                  \<and> li_status r' = li_status r
                  \<and> r' = r\<lparr> li_name := li_name r', li_quantity := li_quantity r',
                             li_fixed_price_cents := li_fixed_price_cents r',
                             li_labor_hours := li_labor_hours r', li_note := li_note r',
                             li_updated_at := li_updated_at r' \<rparr>))"
proof (intro conjI impI allI)
  assume "status_code (fst (put_order_line_item e d ident b)) \<noteq> 200"
  then show "snd (put_order_line_item e d ident b) = d"
    by (rule put_order_line_item_unchanged)
next
  assume ok: "status_code (fst (put_order_line_item e d ident b)) = 200"
  note after = put_order_line_item_updated [OF ok]
  show "orders (snd (put_order_line_item e d ident b)) = orders d"
    by (simp add: after)
  show "transactions (snd (put_order_line_item e d ident b)) = transactions d"
    by (simp add: after)
  show "length (order_line_items (snd (put_order_line_item e d ident b)))
          = length (order_line_items d)"
    by (simp add: after)
  fix n
  assume n: "n < length (order_line_items d)"
  show "let r = order_line_items d ! n;
            r' = order_line_items (snd (put_order_line_item e d ident b)) ! n
        in if li_id r \<noteq> ident then r' = r
           else (b ''name'' = Undefined \<or> b ''name'' = JNull \<longrightarrow> li_name r' = li_name r)
              \<and> (b ''quantity'' = Undefined \<or> b ''quantity'' = JNull
                   \<longrightarrow> li_quantity r' = li_quantity r)
              \<and> (b ''fixed_price_cents'' = Undefined \<or> b ''fixed_price_cents'' = JNull
                   \<longrightarrow> li_fixed_price_cents r' = li_fixed_price_cents r)
              \<and> (b ''labor_hours'' = Undefined \<or> b ''labor_hours'' = JNull
                   \<longrightarrow> li_labor_hours r' = li_labor_hours r)
              \<and> (b ''note'' = Undefined \<or> b ''note'' = JNull \<longrightarrow> li_note r' = li_note r)
              \<and> li_updated_at r' = STime (current_timestamp e)
              \<and> li_order_id r' = li_order_id r \<and> li_pricing r' = li_pricing r
              \<and> li_discount_cents r' = li_discount_cents r
              \<and> li_discount_percent r' = li_discount_percent r
              \<and> li_tax_cents r' = li_tax_cents r \<and> li_tax_percent r' = li_tax_percent r
              \<and> li_total_cents r' = li_total_cents r \<and> li_hidden r' = li_hidden r
              \<and> li_status r' = li_status r
              \<and> r' = r\<lparr> li_name := li_name r', li_quantity := li_quantity r',
                         li_fixed_price_cents := li_fixed_price_cents r',
                         li_labor_hours := li_labor_hours r', li_note := li_note r',
                         li_updated_at := li_updated_at r' \<rparr>"
  proof (cases "li_id (order_line_items d ! n) = ident")
    case False
    with n show ?thesis by (simp add: after Let_def)
  next
    case True
    from n True show ?thesis
      unfolding Let_def after
      by (simp add: update_line_item_def coalesce_omitted)
  qed
qed

lemma item_created:
  "post_order_line_item env1 db1 item_body
     = (Json 201 (posted_line_item env1 item_body),
        db1\<lparr>order_line_items := [posted_line_item env1 item_body]\<rparr>)"
  by (simp add: post_order_line_item_def line_item_violation_def line_item_params_def
      fits_def references_def js_or_def numeric_10_2_examples example_defs)

lemma db2_rows:
  "db2 = db1\<lparr>order_line_items := [posted_line_item env1 item_body]\<rparr>"
  by (simp add: db2_def item_created)

lemma db2_first:
  "length (order_line_items db2) = 1"
  "li_id (order_line_items db2 ! 0) = ''00000000-0000-4000-8000-0000000000a1''"
  "li_name (order_line_items db2 ! 0) = SText ''Oil change''"
  "li_total_cents (order_line_items db2 ! 0) = SNum 0"
  by (simp_all add: db2_rows posted_line_item_def new_line_item_def line_item_params_def
      js_or_def numeric_10_2_examples example_defs)

theorem put_order_line_item_frame_witness:
  "status_code (fst (put_order_line_item env2 db2 ''00000000-0000-4000-8000-0000000000a1''
                       quantity_body)) = 200
   \<and> 0 < length (order_line_items db2)
   \<and> li_id (order_line_items db2 ! 0) = ''00000000-0000-4000-8000-0000000000a1''
   \<and> quantity_body ''name'' = Undefined
   \<and> li_name (order_line_items
                (snd (put_order_line_item env2 db2 ''00000000-0000-4000-8000-0000000000a1''
                        quantity_body)) ! 0) = SText ''Oil change''
   \<and> li_total_cents (order_line_items
                (snd (put_order_line_item env2 db2 ''00000000-0000-4000-8000-0000000000a1''
                        quantity_body)) ! 0) = SNum 0"
proof -
  let ?ident = "''00000000-0000-4000-8000-0000000000a1''"
  have ok: "status_code (fst (put_order_line_item env2 db2 ?ident quantity_body)) = 200"
    by (simp add: put_order_line_item_def Let_def db2_rows posted_line_item_def
        new_line_item_def line_item_params_def fits_def quantity_body_def
        numeric_10_2_examples example_defs)
  have omitted: "quantity_body ''name'' = Undefined"
    by (simp add: quantity_body_def no_body_def)
  have len: "0 < length (order_line_items db2)"
    by (simp add: db2_first)
  from put_order_line_item_frame [of env2 db2 ?ident quantity_body] ok
  have "\<forall>n < length (order_line_items db2).
          let r = order_line_items db2 ! n;
              r' = order_line_items (snd (put_order_line_item env2 db2 ?ident quantity_body)) ! n
          in if li_id r \<noteq> ?ident then r' = r
             else (quantity_body ''name'' = Undefined \<or> quantity_body ''name'' = JNull
                     \<longrightarrow> li_name r' = li_name r)
                \<and> li_total_cents r' = li_total_cents r"
    by (simp add: Let_def)
  with len have
    "let r = order_line_items db2 ! 0;
         r' = order_line_items (snd (put_order_line_item env2 db2 ?ident quantity_body)) ! 0
     in if li_id r \<noteq> ?ident then r' = r
        else (quantity_body ''name'' = Undefined \<or> quantity_body ''name'' = JNull
                \<longrightarrow> li_name r' = li_name r)
           \<and> li_total_cents r' = li_total_cents r"
    by blast
  with omitted have
    "li_name (order_line_items (snd (put_order_line_item env2 db2 ?ident quantity_body)) ! 0)
       = SText ''Oil change''
     \<and> li_total_cents
         (order_line_items (snd (put_order_line_item env2 db2 ?ident quantity_body)) ! 0)
       = SNum 0"
    by (simp add: Let_def db2_first)
  with ok len omitted show ?thesis
    by (simp add: db2_first)
qed

subsection \<open>What each request can leave behind\<close>

lemma put_transaction_cases:
  "put_transaction e d ident b = (ServerError (DbFailure InvalidInput), d)
   \<or> put_transaction e d ident b = (Error 404 ''Transaction not found'', d)
   \<or> (\<exists>row. put_transaction e d ident b
          = (Json 200 row,
             d\<lparr>transactions :=
                  map (\<lambda>r. if t_id r = ident
                            then update_transaction e
                                   [to_sql (b ''status''), to_sql (b ''applied_date''),
                                    to_sql (b ''note'')] r
                            else r)
                    (transactions d)\<rparr>))"
proof (cases "fits e VARCHAR (to_sql (b ''status'')) \<and> fits e TIMESTAMP (to_sql (b ''applied_date''))
               \<and> fits e TEXT (to_sql (b ''note'')) \<and> fits e UUID (SText ident)")
  case False
  then have "put_transaction e d ident b = (ServerError (DbFailure InvalidInput), d)"
    by (auto simp add: put_transaction_def Let_def)
  then show ?thesis by simp
next
  case True
  show ?thesis
  proof (cases "filter (\<lambda>r. t_id r = ident) (transactions d)")
    case Nil
    with \<open>fits e VARCHAR (to_sql (b ''status'')) \<and> _\<close>
    have "put_transaction e d ident b = (Error 404 ''Transaction not found'', d)"
      by (simp add: put_transaction_def Let_def)
    then show ?thesis by simp
  next
    case (Cons row rest)
    with \<open>fits e VARCHAR (to_sql (b ''status'')) \<and> _\<close>
    show ?thesis
      by (simp add: put_transaction_def Let_def)
  qed
qed

lemma payments_confirm_cases:
  "payments_confirm e g d b
     = (Error 400 ''payment_intent_id, order_id, and customer_id are required'', d)
   \<or> (\<exists>msg. retrieve g (b ''payment_intent_id'') = Inl msg
          \<and> payments_confirm e g d b = (ServerError (GatewayFailure msg), d))
   \<or> (\<exists>p. retrieve g (b ''payment_intent_id'') = Inr p \<and> pi_status p \<noteq> ''succeeded''
          \<and> payments_confirm e g d b
              = (Error 400 (''Payment not successful. Status: '' @ pi_status p), d))
   \<or> (\<exists>p err. retrieve g (b ''payment_intent_id'') = Inr p \<and> pi_status p = ''succeeded''
          \<and> transaction_violation e d (confirmed_transaction e b p) = Some err
          \<and> payments_confirm e g d b = (ServerError (DbFailure err), d))
   \<or> (\<exists>p. retrieve g (b ''payment_intent_id'') = Inr p \<and> pi_status p = ''succeeded''
          \<and> transaction_violation e d (confirmed_transaction e b p) = None
          \<and> payments_confirm e g d b
              = (Json 200 (confirmed_transaction e b p, pi_status p, pi_amount p),
                 d\<lparr>transactions := transactions d @ [confirmed_transaction e b p]\<rparr>))"
proof (cases "truthy (b ''payment_intent_id'') \<and> truthy (b ''order_id'') \<and> truthy (b ''customer_id'')")
  case False
  then have "payments_confirm e g d b
     = (Error 400 ''payment_intent_id, order_id, and customer_id are required'', d)"
    by (auto simp add: payments_confirm_def)
  then show ?thesis by simp
next
  case valid: True
  show ?thesis
  proof (cases "retrieve g (b ''payment_intent_id'')")
    case (Inl msg)
    with valid have "payments_confirm e g d b = (ServerError (GatewayFailure msg), d)"
      by (simp add: payments_confirm_def)
    with Inl show ?thesis by simp
  next
    case (Inr p)
    show ?thesis
    proof (cases "pi_status p = ''succeeded''")
      case False
      with valid Inr have "payments_confirm e g d b
              = (Error 400 (''Payment not successful. Status: '' @ pi_status p), d)"
        by (simp add: payments_confirm_def)
      with Inr False show ?thesis by simp
    next
      case True
      show ?thesis
      proof (cases "transaction_violation e d (confirmed_transaction e b p)")
        case None
        with valid Inr True have "payments_confirm e g d b
              = (Json 200 (confirmed_transaction e b p, pi_status p, pi_amount p),
                 d\<lparr>transactions := transactions d @ [confirmed_transaction e b p]\<rparr>)"
          by (simp add: payments_confirm_def insert_transaction_def)
        with Inr True None show ?thesis by simp
      next
        case (Some err)
        with valid Inr True have "payments_confirm e g d b = (ServerError (DbFailure err), d)"
          by (simp add: payments_confirm_def insert_transaction_def)
        with Inr True Some show ?thesis by simp
      qed
    qed
  qed
qed

lemma payments_refund_db:
  "snd (payments_refund g d b) = d"
  by (cases "refunds_create g (b ''payment_intent_id'')
               (js_or (b ''reason'') (JStr ''requested_by_customer''))")
     (simp_all add: payments_refund_def)

lemma handle_orders:
  "orders (handle d q) = orders d"
proof (cases q)
  case (fields e g req)
  show ?thesis
  proof (cases req)
    case (PostOrderLineItem b)
    with fields post_order_line_item_result [of e d b] show ?thesis by auto
  next
    case (PutOrderLineItem i b)
    with fields put_order_line_item_cases [of e d i b] show ?thesis by auto
  next
    case (PostTransaction b)
    with fields post_transaction_result [of e d b] show ?thesis by auto
  next
    case (PutTransaction i b)
    with fields put_transaction_cases [of e d i b] show ?thesis by auto
  next
    case (PaymentsConfirm b)
    with fields payments_confirm_cases [of e g d b] show ?thesis by auto
  next
    case (PaymentsRefund b)
    with fields show ?thesis by (simp add: payments_refund_db)
  qed
qed

lemma run_orders:
  "orders (run d rs) = orders d"
  unfolding run_def
  by (induction rs arbitrary: d) (simp_all add: handle_orders)

text \<open>
  C4, as the code has it. No request writes the order table: after creating or updating
  a line item, and after any sequence of requests, every order row (its calculated\_*
  columns included) is what it was before. The stored totals are neither recomputed nor
  edited.
\<close>

theorem line_item_requests_leave_order_totals:
  "orders (snd (post_order_line_item e d b)) = orders d
   \<and> orders (snd (put_order_line_item e d ident b)) = orders d
   \<and> orders (run d rs) = orders d"
proof (intro conjI)
  show "orders (snd (post_order_line_item e d b)) = orders d"
    using post_order_line_item_result [of e d b] by auto
  show "orders (snd (put_order_line_item e d ident b)) = orders d"
    using put_order_line_item_cases [of e d ident b] by auto
  show "orders (run d rs) = orders d"
    by (rule run_orders)
qed

text \<open>
  C4 as stated fails: in a database whose stored totals are the rollup of its (no) line
  items, adding a fixed-price item of 10000 cents leaves calculated\_total\_cents at 0
  while the rollup of the current items has total 10000.
\<close>

theorem stale_totals_counterexample:
  "totals_are_rollup db1
   \<and> status_code (fst (post_order_line_item env1 db1 item_body)) = 201
   \<and> map calculated_total_cents (orders (snd (post_order_line_item env1 db1 item_body)))
       = [SNum 0]
   \<and> map (\<lambda>r. map_sum id total
               (recompute_order_totals (order_of_row r)
                  (items_of_order (snd (post_order_line_item env1 db1 item_body)) r)))
        (orders (snd (post_order_line_item env1 db1 item_body)))
       = [Inr 10000]
   \<and> \<not> totals_are_rollup (snd (post_order_line_item env1 db1 item_body))"
proof -
  have before: "totals_are_rollup db1"
    by (simp add: totals_are_rollup_def recompute_order_totals_def items_of_order_def
        order_of_row_def stored_totals_def category_sum_def apply_percent_def sql_int_def
        db1_def order1_def)
  have created: "post_order_line_item env1 db1 item_body
     = (Json 201 (posted_line_item env1 item_body),
        db1\<lparr>order_line_items := [posted_line_item env1 item_body]\<rparr>)"
    by (rule item_created)
  have item: "line_item_of_row (posted_line_item env1 item_body)
     = \<lparr> pricing = FixedPrice, category = Labor, quantity = 1, labor_hours = 0,
         unit_rate_cents = 0, fixed_price_cents = 10000, discount_cents = 0,
         discount_percent = 0, tax_cents = 0, tax_percent = 0, taxable = True,
         hidden = False \<rparr>"
    by (simp add: line_item_of_row_def posted_line_item_def new_line_item_def sql_int_def
        line_item_params_def numeric_10_2_examples
        js_or_def item_body_def no_body_def)
  have of_order: "li_order_id (posted_line_item env1 item_body) = SText (o_id order1)"
    by (simp add: posted_line_item_def new_line_item_def line_item_params_def item_body_def
        no_body_def order1_def)
  have rollup: "recompute_order_totals (order_of_row order1)
                  [line_item_of_row (posted_line_item env1 item_body)]
     = Inr \<lparr> labor = 10000, parts = 0, subcontract = 0, shop_supply = 0, subtotal = 10000,
             discount = 0, tax = 0, total = 10000 \<rparr>"
    unfolding item
    by (simp add: recompute_order_totals_def category_sum_def invalid_line_item_def
        line_quantity_def line_base_def line_post_discount_def line_tax_def apply_percent_def
        order_of_row_def sql_int_def order1_def Let_def)
  have stored: "stored_totals order1
     = \<lparr> labor = 0, parts = 0, subcontract = 0, shop_supply = 0, subtotal = 0,
         discount = 0, tax = 0, total = 0 \<rparr>"
    by (simp add: stored_totals_def sql_int_def order1_def)
  show ?thesis
    unfolding created
    using before of_order
    by (simp add: totals_are_rollup_def items_of_order_def rollup stored db1_def)
       (simp add: order1_def)
qed

theorem line_item_requests_leave_order_totals_witness:
  "status_code (fst (post_order_line_item env1 db1 item_body)) = 201
   \<and> order_line_items (snd (post_order_line_item env1 db1 item_body)) \<noteq> order_line_items db1
   \<and> orders (snd (post_order_line_item env1 db1 item_body)) = [order1]
   \<and> orders (run db1 [(env1, gateway_succeeded, PostOrderLineItem item_body),
                      (env2, gateway_succeeded,
                       PutOrderLineItem ''00000000-0000-4000-8000-0000000000a1'' quantity_body)])
       = [order1]"
proof -
  have "orders db1 = [order1]" "order_line_items db1 = []"
    by (simp_all add: db1_def)
  with line_item_requests_leave_order_totals
         [where e = env1 and d = db1 and b = item_body
            and rs = "[(env1, gateway_succeeded, PostOrderLineItem item_body),
                      (env2, gateway_succeeded,
                       PutOrderLineItem ''00000000-0000-4000-8000-0000000000a1'' quantity_body)]"]
  show ?thesis
    by (simp add: item_created)
qed


subsection \<open>Confirming a payment\<close>

lemma transaction_violation_ids:
  "map t_id (transactions d') = map t_id (transactions d) \<Longrightarrow> orders d' = orders d
     \<Longrightarrow> customers d' = customers d
     \<Longrightarrow> transaction_violation e d' r = transaction_violation e d r"
  by (simp add: transaction_violation_def)

lemma payments_confirm_response:
  "fst (payments_confirm e g d b) =
     (if \<not> truthy (b ''payment_intent_id'') \<or> \<not> truthy (b ''order_id'')
         \<or> \<not> truthy (b ''customer_id'')
      then Error 400 ''payment_intent_id, order_id, and customer_id are required''
      else case retrieve g (b ''payment_intent_id'') of
             Inl msg \<Rightarrow> ServerError (GatewayFailure msg)
           | Inr p \<Rightarrow>
               if pi_status p \<noteq> ''succeeded''
               then Error 400 (''Payment not successful. Status: '' @ pi_status p)
               else (case transaction_violation e d (confirmed_transaction e b p) of
                       Some err \<Rightarrow> ServerError (DbFailure err)
                     | None \<Rightarrow> Json 200 (confirmed_transaction e b p, pi_status p, pi_amount p)))"
  by (simp add: payments_confirm_def insert_transaction_def split: sum.split option.split)

lemma confirmed_transaction_columns:
  "t_id (confirmed_transaction e b p) = gen_random_uuid e"
  "t_status (confirmed_transaction e b p) = SText ''paid''"
  "t_payment_reference (confirmed_transaction e b p) = SText (pi_id p)"
  "t_amount_cents (confirmed_transaction e b p) = SNum (of_int (pi_amount p))"
  "t_transaction_type (confirmed_transaction e b p) = SText ''payment''"
  by (simp_all add: confirmed_transaction_def)

lemma transaction_violation_fresh:
  "transaction_violation e d r = None \<Longrightarrow> t_id r \<notin> set (map t_id (transactions d))"
  by (simp add: transaction_violation_def split: if_splits)

text \<open>
  C1, as the code has it. POST /api/payments/confirm is not idempotent on
  payment\_reference. Whenever it answers 200, the gateway reported \<open>succeeded\<close> and
  the handler has appended one new row, with a fresh id, payment\_reference the intent's
  id and status \<open>'paid'\<close>, and returns that new row. Its response does not depend on
  the payment\_reference or the status of the rows already stored.
\<close>

theorem payments_confirm_appends:
  "(status_code (fst (payments_confirm e g d b)) = 200 \<longrightarrow>
      (\<exists>p. retrieve g (b ''payment_intent_id'') = Inr p \<and> pi_status p = ''succeeded''
         \<and> payments_confirm e g d b
             = (Json 200 (confirmed_transaction e b p, pi_status p, pi_amount p),
                d\<lparr>transactions := transactions d @ [confirmed_transaction e b p]\<rparr>)
         \<and> t_id (confirmed_transaction e b p) \<notin> set (map t_id (transactions d))
         \<and> t_payment_reference (confirmed_transaction e b p) = SText (pi_id p)
         \<and> t_status (confirmed_transaction e b p) = SText ''paid''))
   \<and> fst (payments_confirm e g
             (d\<lparr>transactions :=
                  map (\<lambda>t. t\<lparr>t_payment_reference := x t, t_status := y t\<rparr>) (transactions d)\<rparr>) b)
       = fst (payments_confirm e g d b)"
proof (intro conjI impI)
  assume ok: "status_code (fst (payments_confirm e g d b)) = 200"
  with payments_confirm_cases [of e g d b]
  obtain p where p: "retrieve g (b ''payment_intent_id'') = Inr p" "pi_status p = ''succeeded''"
      "transaction_violation e d (confirmed_transaction e b p) = None"
      "payments_confirm e g d b
         = (Json 200 (confirmed_transaction e b p, pi_status p, pi_amount p),
            d\<lparr>transactions := transactions d @ [confirmed_transaction e b p]\<rparr>)"
    by auto
  from transaction_violation_fresh [OF p(3)] p confirmed_transaction_columns [of e b p]
  show "\<exists>p. retrieve g (b ''payment_intent_id'') = Inr p \<and> pi_status p = ''succeeded''
         \<and> payments_confirm e g d b
             = (Json 200 (confirmed_transaction e b p, pi_status p, pi_amount p),
                d\<lparr>transactions := transactions d @ [confirmed_transaction e b p]\<rparr>)
         \<and> t_id (confirmed_transaction e b p) \<notin> set (map t_id (transactions d))
         \<and> t_payment_reference (confirmed_transaction e b p) = SText (pi_id p)
         \<and> t_status (confirmed_transaction e b p) = SText ''paid''"
    by blast
next
  have "transaction_violation e
          (d\<lparr>transactions :=
               map (\<lambda>t. t\<lparr>t_payment_reference := x t, t_status := y t\<rparr>) (transactions d)\<rparr>) r
        = transaction_violation e d r" for r
    by (rule transaction_violation_ids) (simp_all add: comp_def)
  then show "fst (payments_confirm e g
             (d\<lparr>transactions :=
                  map (\<lambda>t. t\<lparr>t_payment_reference := x t, t_status := y t\<rparr>) (transactions d)\<rparr>) b)
       = fst (payments_confirm e g d b)"
    by (simp only: payments_confirm_response)
qed

lemma second_confirmation:
  "payments_confirm env2 gateway_succeeded db3 confirm_body
     = (Json 200 (confirmed_transaction env2 confirm_body intent1, ''succeeded'', 25000),
        db3\<lparr>transactions := [payment1, confirmed_transaction env2 confirm_body intent1]\<rparr>)"
  by (simp add: payments_confirm_def insert_transaction_def transaction_violation_def
      confirmed_transaction_def fits_def references_def js_or_def db3_def payment1_def
      example_defs)

theorem payments_confirm_appends_witness:
  "status_code (fst (payments_confirm env2 gateway_succeeded db3 confirm_body)) = 200
   \<and> map t_id (transactions (snd (payments_confirm env2 gateway_succeeded db3 confirm_body)))
       = [''00000000-0000-4000-8000-0000000000a0'', ''00000000-0000-4000-8000-0000000000a2'']"
proof -
  have ok: "status_code (fst (payments_confirm env2 gateway_succeeded db3 confirm_body)) = 200"
    by (simp add: second_confirmation)
  with payments_confirm_appends [of env2 gateway_succeeded db3 confirm_body]
  obtain p where
    "payments_confirm env2 gateway_succeeded db3 confirm_body
       = (Json 200 (confirmed_transaction env2 confirm_body p, pi_status p, pi_amount p),
          db3\<lparr>transactions := transactions db3 @ [confirmed_transaction env2 confirm_body p]\<rparr>)"
    by blast
  then have "map t_id (transactions (snd (payments_confirm env2 gateway_succeeded db3 confirm_body)))
       = map t_id (transactions db3) @ [gen_random_uuid env2]"
    by (simp add: confirmed_transaction_columns)
  with ok show ?thesis
    by (simp add: db3_def payment1_def env2_def)
qed

text \<open>
  C1 as stated fails: with a succeeded transaction of reference pi\_1 stored, confirming
  pi\_1 again answers 200 and stores a second row with the same reference and another
  id; two identical confirmations on an empty ledger store two rows.
\<close>

theorem duplicate_reference_counterexample:
  "map t_status (transactions db3) = [SText ''succeeded'']
   \<and> map t_payment_reference (transactions db3) = [SText ''pi_1'']
   \<and> status_code (fst (payments_confirm env2 gateway_succeeded db3 confirm_body)) = 200
   \<and> map t_payment_reference
        (transactions (snd (payments_confirm env2 gateway_succeeded db3 confirm_body)))
       = [SText ''pi_1'', SText ''pi_1'']
   \<and> map t_id (transactions (snd (payments_confirm env2 gateway_succeeded db3 confirm_body)))
       = [''00000000-0000-4000-8000-0000000000a0'', ''00000000-0000-4000-8000-0000000000a2'']
   \<and> map t_payment_reference
        (transactions (run db1 [(env1, gateway_succeeded, PaymentsConfirm confirm_body),
                                (env2, gateway_succeeded, PaymentsConfirm confirm_body)]))
       = [SText ''pi_1'', SText ''pi_1'']"
proof -
  have first: "payments_confirm env1 gateway_succeeded db1 confirm_body
     = (Json 200 (confirmed_transaction env1 confirm_body intent1, ''succeeded'', 25000),
        db1\<lparr>transactions := [confirmed_transaction env1 confirm_body intent1]\<rparr>)"
    by (simp add: payments_confirm_def insert_transaction_def transaction_violation_def
      confirmed_transaction_def fits_def references_def js_or_def example_defs)
  have again: "snd (payments_confirm env2 gateway_succeeded
                 (db1\<lparr>transactions := [confirmed_transaction env1 confirm_body intent1]\<rparr>)
                 confirm_body)
     = db1\<lparr>transactions := [confirmed_transaction env1 confirm_body intent1,
                               confirmed_transaction env2 confirm_body intent1]\<rparr>"
    by (simp add: payments_confirm_def insert_transaction_def transaction_violation_def
      confirmed_transaction_def fits_def references_def js_or_def example_defs)
  have refs: "t_payment_reference (confirmed_transaction e confirm_body intent1) = SText ''pi_1''"
    for e
    by (simp add: confirmed_transaction_columns intent1_def)
  have twice: "map t_payment_reference
        (transactions (run db1 [(env1, gateway_succeeded, PaymentsConfirm confirm_body),
                                (env2, gateway_succeeded, PaymentsConfirm confirm_body)]))
       = [SText ''pi_1'', SText ''pi_1'']"
    by (simp add: run_def first again refs)
  have stored: "map t_status (transactions db3) = [SText ''succeeded'']"
    "map t_payment_reference (transactions db3) = [SText ''pi_1'']"
    "map t_id (transactions db3) = [''00000000-0000-4000-8000-0000000000a0'']"
    by (simp_all add: db3_def payment1_def)
  have new_id: "t_id (confirmed_transaction env2 confirm_body intent1)
                  = ''00000000-0000-4000-8000-0000000000a2''"
    by (simp add: confirmed_transaction_columns env2_def)
  have old: "t_payment_reference payment1 = SText ''pi_1''"
    "t_id payment1 = ''00000000-0000-4000-8000-0000000000a0''"
    by (simp_all add: payment1_def)
  from stored twice show ?thesis
    by (simp add: second_confirmation refs new_id old)
qed

text \<open>
  C6, as the code has it. When the gateway call of POST /api/payments/confirm throws
  (failure or timeout), the database is unchanged and the answer is 500 with the
  gateway's message (or the 400 of an incomplete body); when the gateway reports a status
  other than \<open>succeeded\<close>, the database is unchanged and the answer is 400. The
  handler changes the database only by appending one row of status \<open>'paid'\<close>,
  after the gateway reported \<open>succeeded\<close>; it never stores a pending row.
\<close>

theorem payments_confirm_gateway_failure:
  "(retrieve g (b ''payment_intent_id'') = Inl msg \<longrightarrow>
      snd (payments_confirm e g d b) = d
      \<and> (fst (payments_confirm e g d b) = ServerError (GatewayFailure msg)
         \<or> fst (payments_confirm e g d b)
             = Error 400 ''payment_intent_id, order_id, and customer_id are required''))
   \<and> (retrieve g (b ''payment_intent_id'') = Inr p \<and> pi_status p \<noteq> ''succeeded'' \<longrightarrow>
      snd (payments_confirm e g d b) = d
      \<and> status_code (fst (payments_confirm e g d b)) = 400)
   \<and> (snd (payments_confirm e g d b) \<noteq> d \<longrightarrow>
      (\<exists>q. retrieve g (b ''payment_intent_id'') = Inr q \<and> pi_status q = ''succeeded''
         \<and> transactions (snd (payments_confirm e g d b))
             = transactions d @ [confirmed_transaction e b q]
         \<and> t_status (confirmed_transaction e b q) = SText ''paid''))"
proof -
  have failed: "snd (payments_confirm e g d b) = d
      \<and> (fst (payments_confirm e g d b) = ServerError (GatewayFailure msg)
         \<or> fst (payments_confirm e g d b)
             = Error 400 ''payment_intent_id, order_id, and customer_id are required'')"
    if "retrieve g (b ''payment_intent_id'') = Inl msg"
    using that payments_confirm_cases [of e g d b] by auto
  have refused: "snd (payments_confirm e g d b) = d
      \<and> status_code (fst (payments_confirm e g d b)) = 400"
    if "retrieve g (b ''payment_intent_id'') = Inr p \<and> pi_status p \<noteq> ''succeeded''"
    using that payments_confirm_cases [of e g d b] by auto
  have stored: "\<exists>q. retrieve g (b ''payment_intent_id'') = Inr q \<and> pi_status q = ''succeeded''
         \<and> transactions (snd (payments_confirm e g d b))
             = transactions d @ [confirmed_transaction e b q]
         \<and> t_status (confirmed_transaction e b q) = SText ''paid''"
    if changed: "snd (payments_confirm e g d b) \<noteq> d"
  proof -
    from changed payments_confirm_cases [of e g d b]
    obtain q where "retrieve g (b ''payment_intent_id'') = Inr q" "pi_status q = ''succeeded''"
      "payments_confirm e g d b
         = (Json 200 (confirmed_transaction e b q, pi_status q, pi_amount q),
            d\<lparr>transactions := transactions d @ [confirmed_transaction e b q]\<rparr>)"
      by auto
    with confirmed_transaction_columns(2) [of e b q] show ?thesis
      by auto
  qed
  from failed refused stored show ?thesis
    by blast
qed

theorem payments_confirm_gateway_failure_witness:
  "retrieve gateway_timeout (confirm_body ''payment_intent_id'') = Inl ''Request timed out''
   \<and> snd (payments_confirm env1 gateway_timeout db1 confirm_body) = db1
   \<and> retrieve gateway_processing (confirm_body ''payment_intent_id'')
       = Inr (intent1\<lparr>pi_status := ''processing''\<rparr>)
   \<and> pi_status (intent1\<lparr>pi_status := ''processing''\<rparr>) \<noteq> ''succeeded''
   \<and> snd (payments_confirm env1 gateway_processing db1 confirm_body) = db1"
proof -
  have down: "retrieve gateway_timeout (confirm_body ''payment_intent_id'')
                = Inl ''Request timed out''"
    by (simp add: gateway_timeout_def retrieve_timeout_def)
  have busy: "retrieve gateway_processing (confirm_body ''payment_intent_id'')
                = Inr (intent1\<lparr>pi_status := ''processing''\<rparr>)
              \<and> pi_status (intent1\<lparr>pi_status := ''processing''\<rparr>) \<noteq> ''succeeded''"
    by (simp add: gateway_processing_def retrieve_processing_def)
  from down
    payments_confirm_gateway_failure
      [where g = gateway_timeout and b = confirm_body and msg = "''Request timed out''"
         and e = env1 and d = db1]
  have "snd (payments_confirm env1 gateway_timeout db1 confirm_body) = db1"
    by blast
  moreover from busy
    payments_confirm_gateway_failure
      [where g = gateway_processing and b = confirm_body
         and p = "intent1\<lparr>pi_status := ''processing''\<rparr>" and e = env1 and d = db1]
  have "snd (payments_confirm env1 gateway_processing db1 confirm_body) = db1"
    by blast
  ultimately show ?thesis
    using down busy by blast
qed

text \<open>
  C6 as stated fails: after a gateway timeout, and after a gateway answer
  \<open>processing\<close>, no transaction is stored.
\<close>

theorem gateway_failure_counterexample:
  "fst (payments_confirm env1 gateway_timeout db1 confirm_body)
     = ServerError (GatewayFailure ''Request timed out'')
   \<and> transactions (snd (payments_confirm env1 gateway_timeout db1 confirm_body)) = []
   \<and> fst (payments_confirm env1 gateway_processing db1 confirm_body)
       = Error 400 ''Payment not successful. Status: processing''
   \<and> transactions (snd (payments_confirm env1 gateway_processing db1 confirm_body)) = []"
proof -
  have valid: "truthy (confirm_body ''payment_intent_id'')" "truthy (confirm_body ''order_id'')"
    "truthy (confirm_body ''customer_id'')"
    by (simp_all add: confirm_body_def no_body_def)
  have none: "transactions db1 = []"
    by (simp add: db1_def)
  have "payments_confirm env1 gateway_timeout db1 confirm_body
          = (ServerError (GatewayFailure ''Request timed out''), db1)"
    using valid by (simp add: payments_confirm_def gateway_timeout_def retrieve_timeout_def)
  moreover have "payments_confirm env1 gateway_processing db1 confirm_body
          = (Error 400 ''Payment not successful. Status: processing'', db1)"
    using valid
    by (simp add: payments_confirm_def gateway_processing_def retrieve_processing_def)
  ultimately show ?thesis
    using none by simp
qed

subsection \<open>The ledger over sequences of requests\<close>









subsection \<open>The rollup and the balance of the specification\<close>

lemma recompute_order_totals_reads:
  "recompute_order_totals (store_totals ord t) items = recompute_order_totals ord items"
  by (simp add: recompute_order_totals_def store_totals_def)

text \<open>
  C8. The rollup is idempotent: running it, storing its totals in the order's computed
  fields when it returns some, and running it again on the same line items gives the
  same outcome, totals or error, as running it once. The rollup reads the order's
  percentages and the line items only, never the stored totals.
\<close>

theorem recompute_order_totals_idempotent:
  "recompute_order_totals
     (case recompute_order_totals ord items of
        Inl err \<Rightarrow> ord
      | Inr t \<Rightarrow> store_totals ord t) items
   = recompute_order_totals ord items"
  by (cases "recompute_order_totals ord items") (simp_all add: recompute_order_totals_reads)

lemma scenario_rollup:
  "recompute_order_totals scenario_order scenario_items = Inr scenario_totals"
  by (simp add: recompute_order_totals_def category_sum_def invalid_line_item_def
      line_quantity_def line_base_def line_post_discount_def line_tax_def apply_percent_def
      scenario_order_def scenario_items_def scenario_totals_def Let_def)

theorem recompute_order_totals_idempotent_witness:
  "recompute_order_totals scenario_order scenario_items = Inr scenario_totals
   \<and> recompute_order_totals (store_totals scenario_order scenario_totals) scenario_items
       = Inr scenario_totals
   \<and> total scenario_totals = 14300"
  using recompute_order_totals_idempotent [of scenario_order scenario_items]
  by (simp add: scenario_rollup) (simp add: scenario_totals_def)

lemma tally_sums:
  "tally ts =
     (sum_list (map amount_cents (filter (\<lambda>t. status t = Succeeded \<and> kind t = Payment) ts)),
      sum_list (map amount_cents (filter (\<lambda>t. status t = Succeeded \<and> kind t = Refund) ts)))"
  by (induction ts) auto

text \<open>
  C2. The balance of an order: paid\_cents is the sum of the amounts of the succeeded
  payments, refunded\_cents the sum of the amounts of the succeeded refunds, and
  due\_cents is max(0, total\_cents - paid\_cents + refunded\_cents). What is due is
  never negative; an overpayment shows as credit\_cents, which is never negative either,
  and due\_cents - credit\_cents is the signed difference.
\<close>

theorem balance_reconciles:
  "paid_cents (balance ord ts)
     = sum_list (map amount_cents (filter (\<lambda>t. status t = Succeeded \<and> kind t = Payment) ts))
   \<and> refunded_cents (balance ord ts)
     = sum_list (map amount_cents (filter (\<lambda>t. status t = Succeeded \<and> kind t = Refund) ts))
   \<and> total_cents (balance ord ts) = total (computed ord)
   \<and> due_cents (balance ord ts)
     = max 0 (total_cents (balance ord ts) - paid_cents (balance ord ts)
              + refunded_cents (balance ord ts))
   \<and> 0 \<le> due_cents (balance ord ts)
   \<and> 0 \<le> credit_cents (balance ord ts)
   \<and> due_cents (balance ord ts) - credit_cents (balance ord ts)
     = total_cents (balance ord ts) - paid_cents (balance ord ts)
       + refunded_cents (balance ord ts)"
  by (simp add: balance_def tally_sums max_def)

theorem balance_reconciles_witness:
  "paid_cents (balance (store_totals scenario_order scenario_totals) scenario_ledger) = 10000
   \<and> refunded_cents (balance (store_totals scenario_order scenario_totals) scenario_ledger) = 3000
   \<and> due_cents (balance (store_totals scenario_order scenario_totals) scenario_ledger) = 7300
   \<and> credit_cents (balance (store_totals scenario_order scenario_totals) scenario_ledger) = 0
   \<and> due_cents (balance scenario_order scenario_ledger) = 0
   \<and> credit_cents (balance scenario_order scenario_ledger) = 7000"
proof -
  have paid: "sum_list (map amount_cents
                (filter (\<lambda>t. status t = Succeeded \<and> kind t = Payment) scenario_ledger)) = 10000"
    and refunded: "sum_list (map amount_cents
                (filter (\<lambda>t. status t = Succeeded \<and> kind t = Refund) scenario_ledger)) = 3000"
    by (simp_all add: scenario_ledger_def)
  have totals: "total (computed (store_totals scenario_order scenario_totals)) = 14300"
    "total (computed scenario_order) = 0"
    by (simp_all add: store_totals_def scenario_totals_def scenario_order_def)
  note a = balance_reconciles [of "store_totals scenario_order scenario_totals" scenario_ledger]
  note b = balance_reconciles [of scenario_order scenario_ledger]
  from a paid refunded totals
  have "paid_cents (balance (store_totals scenario_order scenario_totals) scenario_ledger) = 10000
     \<and> refunded_cents (balance (store_totals scenario_order scenario_totals) scenario_ledger) = 3000
     \<and> due_cents (balance (store_totals scenario_order scenario_totals) scenario_ledger) = 7300
     \<and> credit_cents (balance (store_totals scenario_order scenario_totals) scenario_ledger) = 0"
    by auto
  moreover from b paid refunded totals
  have "due_cents (balance scenario_order scenario_ledger) = 0
     \<and> credit_cents (balance scenario_order scenario_ledger) = 7000"
    by auto
  ultimately show ?thesis by simp
qed

end
